theory Spec2Isabelle
  imports Complex_Main "HOL-Library.Product_Lexorder"
begin

section \<open>Data model\<close>

text \<open>
  The views of \<^verbatim>\<open>articles/views.py\<close> work on three tables (users, content items,
  comments) and three many-to-many relations reached through the managers
  \<^verbatim>\<open>favorite_contents\<close>, \<^verbatim>\<open>liked_contents\<close> (reverse name \<^verbatim>\<open>liked_by\<close>) and
  \<^verbatim>\<open>liked_comments\<close> of a user. A table is the list of its rows; a relation is the
  list of the rows \<open>(user id, target id)\<close> of its link table. Timestamps are integers,
  in microseconds. The title and body of an item are opaque to the views and are kept
  as one string.
\<close>

record userinfo =
  u_id :: nat
  username :: string

record contentinfo =
  c_id :: nat
  c_userinfo_id :: nat
  c_data :: string
  c_create_dt :: int
  c_is_visible :: bool

record commentinfo =
  m_id :: nat
  m_userinfo_id :: nat
  m_contentinfo_id :: nat
  m_data :: string
  m_create_dt :: int
  m_is_visible :: bool

record db =
  users :: "userinfo list"
  contents :: "contentinfo list"
  comments :: "commentinfo list"
  favorite_contents :: "(nat \<times> nat) list"
  liked_contents :: "(nat \<times> nat) list"
  liked_comments :: "(nat \<times> nat) list"

text \<open>
  Exceptions that leave a view: \<open>Http404\<close> from \<^verbatim>\<open>get_object_or_404\<close>, the model's
  \<open>DoesNotExist\<close> from an unguarded \<^verbatim>\<open>objects.get\<close>, the view's own
  \<open>InvalidQueryParamsException\<close> (status 406) and the serializer's \<open>ValidationError\<close>
  raised by \<^verbatim>\<open>is_valid(raise_exception=True)\<close>.
\<close>

datatype error = Http404 | DoesNotExist | InvalidQueryParamsException | ValidationError


datatype jval = JStr string | JInt nat

datatype rdata =
    NoData
  | Dict "(string \<times> jval) list"
  | ContentData contentinfo
  | CommentData commentinfo

record response =
  r_status :: nat
  r_data :: rdata

definition Response :: "rdata \<Rightarrow> nat \<Rightarrow> response" where
  "Response d st = \<lparr>r_status = st, r_data = d\<rparr>"

definition body_get :: "response \<Rightarrow> string \<Rightarrow> jval option" where
  "body_get r k = (case r_data r of Dict kv \<Rightarrow> map_of kv k | _ \<Rightarrow> None)"

text \<open>
  \<^verbatim>\<open>request.user\<close>: the anonymous user is the one that is not authenticated, and it has
  no id.
\<close>

datatype requester = AnonymousUser | User nat

fun user_pk :: "requester \<Rightarrow> nat option" where
  "user_pk AnonymousUser = None"
| "user_pk (User n) = Some n"

section \<open>Row lookups\<close>

definition get_object_or_404 :: "('a \<Rightarrow> nat) \<Rightarrow> 'a list \<Rightarrow> nat \<Rightarrow> error + 'a" where
  "get_object_or_404 pk tbl i =
     (case find (\<lambda>r. pk r = i) tbl of None \<Rightarrow> Inl Http404 | Some r \<Rightarrow> Inr r)"

definition objects_get :: "('a \<Rightarrow> nat) \<Rightarrow> 'a list \<Rightarrow> nat \<Rightarrow> error + 'a" where
  "objects_get pk tbl i =
     (case find (\<lambda>r. pk r = i) tbl of None \<Rightarrow> Inl DoesNotExist | Some r \<Rightarrow> Inr r)"

section \<open>Relation managers\<close>

text \<open>
  \<^verbatim>\<open>me.rel.filter(id=t).exists()\<close> joins the target table with the link table on the
  rows of \<open>me\<close>; \<^verbatim>\<open>add\<close> inserts the link row unless it is there already; \<^verbatim>\<open>remove\<close>
  deletes every link row of the pair.
\<close>

definition rel_filter_exists :: "('a \<Rightarrow> nat) \<Rightarrow> 'a list \<Rightarrow> (nat \<times> nat) list \<Rightarrow> nat \<Rightarrow> nat \<Rightarrow> bool" where
  "rel_filter_exists pk tbl link me t =
     (filter (\<lambda>r. pk r = t \<and> (me, pk r) \<in> set link) tbl \<noteq> [])"

definition rel_add :: "(nat \<times> nat) list \<Rightarrow> nat \<Rightarrow> nat \<Rightarrow> (nat \<times> nat) list" where
  "rel_add link me t = (if (me, t) \<in> set link then link else link @ [(me, t)])"

definition rel_remove :: "(nat \<times> nat) list \<Rightarrow> nat \<Rightarrow> nat \<Rightarrow> (nat \<times> nat) list" where
  "rel_remove link me t = filter (\<lambda>p. p \<noteq> (me, t)) link"

section \<open>Toggle views\<close>

fun content_favorite :: "db \<Rightarrow> requester \<Rightarrow> nat \<Rightarrow> error + (response \<times> db)" where
  "content_favorite s (User uid) content_id =
     (case objects_get u_id (users s) uid of Inl e \<Rightarrow> Inl e | Inr me \<Rightarrow>
      (case get_object_or_404 c_id (contents s) content_id of Inl e \<Rightarrow> Inl e | Inr content \<Rightarrow>
        if rel_filter_exists c_id (contents s) (favorite_contents s) (u_id me) content_id
        then Inr (Response (Dict [(''message'', JStr ''Favorite content canceled.'')]) 200,
                  s\<lparr>favorite_contents := rel_remove (favorite_contents s) (u_id me) (c_id content)\<rparr>)
        else Inr (Response (Dict [(''message'', JStr ''Favorite content success.''),
                                  (''user'', JStr (username me)),
                                  (''content_id'', JInt (c_id content))]) 200,
                  s\<lparr>favorite_contents := rel_add (favorite_contents s) (u_id me) (c_id content)\<rparr>)))"
| "content_favorite s AnonymousUser content_id = Inr (Response NoData 403, s)"

fun content_like :: "db \<Rightarrow> requester \<Rightarrow> nat \<Rightarrow> error + (response \<times> db)" where
  "content_like s (User uid) content_id =
     (case objects_get u_id (users s) uid of Inl e \<Rightarrow> Inl e | Inr me \<Rightarrow>
      (case get_object_or_404 c_id (contents s) content_id of Inl e \<Rightarrow> Inl e | Inr content \<Rightarrow>
        if rel_filter_exists c_id (contents s) (liked_contents s) (u_id me) content_id
        then Inr (Response (Dict [(''message'', JStr ''Like content canceled.'')]) 200,
                  s\<lparr>liked_contents := rel_remove (liked_contents s) (u_id me) (c_id content)\<rparr>)
        else Inr (Response (Dict [(''message'', JStr ''Like content success.''),
                                  (''user'', JStr (username me)),
                                  (''content_id'', JInt (c_id content))]) 200,
                  s\<lparr>liked_contents := rel_add (liked_contents s) (u_id me) (c_id content)\<rparr>)))"
| "content_like s AnonymousUser content_id = Inr (Response NoData 403, s)"

fun comment_like :: "db \<Rightarrow> requester \<Rightarrow> nat \<Rightarrow> error + (response \<times> db)" where
  "comment_like s (User uid) comment_id =
     (case objects_get u_id (users s) uid of Inl e \<Rightarrow> Inl e | Inr me \<Rightarrow>
      (case get_object_or_404 m_id (comments s) comment_id of Inl e \<Rightarrow> Inl e | Inr comment \<Rightarrow>
        if rel_filter_exists m_id (comments s) (liked_comments s) (u_id me) comment_id
        then Inr (Response (Dict [(''message'', JStr ''Like comment canceled.'')]) 200,
                  s\<lparr>liked_comments := rel_remove (liked_comments s) (u_id me) (m_id comment)\<rparr>)
        else Inr (Response (Dict [(''message'', JStr ''Like comment success.''),
                                  (''user'', JStr (username me)),
                                  (''content_id'', JInt (m_id comment))]) 200,
                  s\<lparr>liked_comments := rel_add (liked_comments s) (u_id me) (m_id comment)\<rparr>)))"
| "comment_like s AnonymousUser comment_id = Inr (Response NoData 403, s)"

section \<open>Owner-gated mutation views\<close>

text \<open>
  \<^verbatim>\<open>ContentSerializer\<close> and \<^verbatim>\<open>CommentSerializer\<close> live outside \<^verbatim>\<open>views.py\<close>; the
  views only call \<^verbatim>\<open>is_valid(raise_exception=True)\<close> and \<^verbatim>\<open>save()\<close> on them. A serializer
  is therefore a parameter \<open>ser\<close>: from the stored data of the row and the request
  payload it gives \<open>None\<close> when the payload is rejected and the data after the partial
  update otherwise. \<^verbatim>\<open>save()\<close> writes the row back under its primary key.
\<close>

definition save_row :: "('a \<Rightarrow> nat) \<Rightarrow> 'a \<Rightarrow> 'a list \<Rightarrow> 'a list" where
  "save_row pk row tbl = map (\<lambda>x. if pk x = pk row then row else x) tbl"

definition ContentDetailAPIView_put ::
  "(string \<Rightarrow> 'p \<Rightarrow> string option) \<Rightarrow> db \<Rightarrow> requester \<Rightarrow> nat \<Rightarrow> 'p \<Rightarrow> error + (response \<times> db)" where
  "ContentDetailAPIView_put ser s user content_id data =
     (case get_object_or_404 c_id (contents s) content_id of Inl e \<Rightarrow> Inl e | Inr row \<Rightarrow>
        if user_pk user \<noteq> Some (c_userinfo_id row) then Inr (Response NoData 403, s)
        else (case ser (c_data row) data of None \<Rightarrow> Inl ValidationError
              | Some d \<Rightarrow>
                  Inr (Response (ContentData (row\<lparr>c_data := d\<rparr>)) 200,
                       s\<lparr>contents := save_row c_id (row\<lparr>c_data := d\<rparr>) (contents s)\<rparr>)))"

definition ContentDetailAPIView_delete :: "db \<Rightarrow> requester \<Rightarrow> nat \<Rightarrow> error + (response \<times> db)" where
  "ContentDetailAPIView_delete s user content_id =
     (case get_object_or_404 c_id (contents s) content_id of Inl e \<Rightarrow> Inl e | Inr row \<Rightarrow>
        if user_pk user \<noteq> Some (c_userinfo_id row) then Inr (Response NoData 403, s)
        else Inr (Response NoData 204,
                  s\<lparr>contents := save_row c_id (row\<lparr>c_is_visible := False\<rparr>) (contents s)\<rparr>))"

definition CommentDetailAPIView_put ::
  "(string \<Rightarrow> 'p \<Rightarrow> string option) \<Rightarrow> db \<Rightarrow> requester \<Rightarrow> nat \<Rightarrow> 'p \<Rightarrow> error + (response \<times> db)" where
  "CommentDetailAPIView_put ser s user comment_id data =
     (case get_object_or_404 m_id (comments s) comment_id of Inl e \<Rightarrow> Inl e | Inr row \<Rightarrow>
        if user_pk user \<noteq> Some (m_userinfo_id row) then Inr (Response NoData 403, s)
        else (case ser (m_data row) data of None \<Rightarrow> Inl ValidationError
              | Some d \<Rightarrow>
                  Inr (Response (CommentData (row\<lparr>m_data := d\<rparr>)) 202,
                       s\<lparr>comments := save_row m_id (row\<lparr>m_data := d\<rparr>) (comments s)\<rparr>)))"

definition CommentDetailAPIView_delete :: "db \<Rightarrow> requester \<Rightarrow> nat \<Rightarrow> error + (response \<times> db)" where
  "CommentDetailAPIView_delete s user comment_id =
     (case get_object_or_404 m_id (comments s) comment_id of Inl e \<Rightarrow> Inl e | Inr row \<Rightarrow>
        if user_pk user \<noteq> Some (m_userinfo_id row) then Inr (Response NoData 403, s)
        else Inr (Response NoData 204,
                  s\<lparr>comments := save_row m_id (row\<lparr>m_is_visible := False\<rparr>) (comments s)\<rparr>))"

section \<open>Query strings\<close>

text \<open>
  A query parameter is absent (\<open>None\<close>) or a string. Python's \<^verbatim>\<open>if p:\<close> holds for a
  non-empty string only. On the characters of \<^typ>\<open>char\<close> the decimal characters of
  \<^verbatim>\<open>str.isdecimal\<close> are the ten digits, and \<^verbatim>\<open>int\<close> reads them in base ten.
\<close>

record query_params =
  q_order_by :: "string option"
  q_favorite_by :: "string option"
  q_liked_by :: "string option"
  q_user :: "string option"

fun truthy :: "string option \<Rightarrow> bool" where
  "truthy None = False"
| "truthy (Some v) = (v \<noteq> [])"

definition str_of :: "string option \<Rightarrow> string" where
  "str_of p = (case p of None \<Rightarrow> [] | Some v \<Rightarrow> v)"

definition isdecimal :: "string \<Rightarrow> bool" where
  "isdecimal v = (v \<noteq> [] \<and> list_all (\<lambda>c. c \<in> set ''0123456789'') v)"

definition int_of_str :: "string \<Rightarrow> nat" where
  "int_of_str v = foldl (\<lambda>n c. 10 * n + (of_char c - 48)) 0 v"

section \<open>Query sets and annotation\<close>

text \<open>
  A query set on the content table is the rows selected so far together with the joins
  the query already holds: \<^verbatim>\<open>user.favorite_contents\<close> and \<^verbatim>\<open>user.liked_contents\<close> are
  the content table joined (inner) with the link rows of that user. \<^verbatim>\<open>annotate\<close> with
  \<^verbatim>\<open>Count(F("comments_on_content"))\<close> and \<^verbatim>\<open>Count(F("liked_by"))\<close> adds a left outer join
  with the comments of the item and one with its \<^verbatim>\<open>liked_by\<close> link rows, groups by item
  and counts the joined rows whose column is not null; neither join carries a condition
  on \<^verbatim>\<open>is_visible\<close>. A query that already joins \<^verbatim>\<open>liked_by\<close> (the one started from
  \<^verbatim>\<open>user.liked_contents\<close>) reuses that join for the count.
\<close>

record content_queryset =
  qs_rows :: "contentinfo list"
  qs_favorite_by :: "nat option"
  qs_liked_by :: "nat option"

definition ContentInfo_objects :: "db \<Rightarrow> content_queryset" where
  "ContentInfo_objects s = \<lparr>qs_rows = contents s, qs_favorite_by = None, qs_liked_by = None\<rparr>"

definition user_favorite_contents :: "db \<Rightarrow> userinfo \<Rightarrow> content_queryset" where
  "user_favorite_contents s u =
     \<lparr>qs_rows = contents s, qs_favorite_by = Some (u_id u), qs_liked_by = None\<rparr>"

definition user_liked_contents :: "db \<Rightarrow> userinfo \<Rightarrow> content_queryset" where
  "user_liked_contents s u =
     \<lparr>qs_rows = contents s, qs_favorite_by = None, qs_liked_by = Some (u_id u)\<rparr>"

definition qs_filter :: "(contentinfo \<Rightarrow> bool) \<Rightarrow> content_queryset \<Rightarrow> content_queryset" where
  "qs_filter P qs = qs\<lparr>qs_rows := filter P (qs_rows qs)\<rparr>"

definition left_outer :: "'a list \<Rightarrow> 'a option list" where
  "left_outer xs = (if xs = [] then [None] else map Some xs)"

definition favorite_join :: "db \<Rightarrow> content_queryset \<Rightarrow> contentinfo \<Rightarrow> (nat \<times> nat) option list" where
  "favorite_join s qs c =
     (case qs_favorite_by qs of None \<Rightarrow> [None]
      | Some u \<Rightarrow> map Some (filter (\<lambda>p. p = (u, c_id c)) (favorite_contents s)))"

definition liked_by_join :: "db \<Rightarrow> content_queryset \<Rightarrow> contentinfo \<Rightarrow> (nat \<times> nat) option list" where
  "liked_by_join s qs c =
     (case qs_liked_by qs of
        None \<Rightarrow> left_outer (filter (\<lambda>p. snd p = c_id c) (liked_contents s))
      | Some u \<Rightarrow> map Some (filter (\<lambda>p. p = (u, c_id c)) (liked_contents s)))"

definition comments_join :: "db \<Rightarrow> contentinfo \<Rightarrow> commentinfo option list" where
  "comments_join s c = left_outer (filter (\<lambda>m. m_contentinfo_id m = c_id c) (comments s))"

definition joined_rows ::
  "db \<Rightarrow> content_queryset \<Rightarrow> contentinfo
     \<Rightarrow> ((nat \<times> nat) option \<times> (nat \<times> nat) option \<times> commentinfo option) list" where
  "joined_rows s qs c =
     List.product (favorite_join s qs c) (List.product (liked_by_join s qs c) (comments_join s c))"

record annotated =
  a_row :: contentinfo
  comment_count :: int
  like_count :: int
  duration_in_microseconds :: int
  duration :: int
  article_point :: int

definition replace_microsecond_0 :: "int \<Rightarrow> int" where
  "replace_microsecond_0 t = t - t mod 1000000"

text \<open>The rows a query set yields when it is evaluated without annotation.\<close>

definition qs_eval :: "db \<Rightarrow> content_queryset \<Rightarrow> contentinfo list" where
  "qs_eval s qs =
     concat (map (\<lambda>c. map (\<lambda>j. c) (List.product (favorite_join s qs c)
                                       (case qs_liked_by qs of None \<Rightarrow> [None]
                                        | Some u \<Rightarrow> liked_by_join s qs c)))
                 (qs_rows qs))"

text \<open>
  The three chained \<^verbatim>\<open>annotate\<close> calls of the list view. \<open>now\<close> is the value of
  \<^verbatim>\<open>timezone.now()\<close>, read once for the query; \<^verbatim>\<open>FLOOR\<close> of the quotient by the
  microseconds of a day is integer division rounding down.
\<close>

definition list_annotate :: "db \<Rightarrow> int \<Rightarrow> content_queryset \<Rightarrow> annotated list" where
  "list_annotate s now rows =
     map (\<lambda>c.
            let j = joined_rows s rows c;
                cc = int (length (filter (\<lambda>(f, l, m). m \<noteq> None) j));
                lc = int (length (filter (\<lambda>(f, l, m). l \<noteq> None) j));
                us = replace_microsecond_0 now - c_create_dt c;
                d = us div (1000 * 1000 * 60 * 60 * 24)
            in \<lparr>a_row = c, comment_count = cc, like_count = lc,
                duration_in_microseconds = us, duration = d,
                article_point = -5 * d + 3 * cc + lc\<rparr>)
         (filter (\<lambda>c. joined_rows s rows c \<noteq> []) (qs_rows rows))"

text \<open>The same three calls as they are written in the detail view.\<close>

definition detail_annotate :: "db \<Rightarrow> int \<Rightarrow> content_queryset \<Rightarrow> annotated list" where
  "detail_annotate s now row =
     map (\<lambda>c.
            let j = joined_rows s row c;
                cc = int (length (filter (\<lambda>(f, l, m). m \<noteq> None) j));
                lc = int (length (filter (\<lambda>(f, l, m). l \<noteq> None) j));
                us = replace_microsecond_0 now - c_create_dt c;
                d = us div (1000 * 1000 * 60 * 60 * 24)
            in \<lparr>a_row = c, comment_count = cc, like_count = lc,
                duration_in_microseconds = us, duration = d,
                article_point = -5 * d + 3 * cc + lc\<rparr>)
         (filter (\<lambda>c. joined_rows s row c \<noteq> []) (qs_rows row))"

text \<open>
  \<^verbatim>\<open>order_by("-create_dt")\<close> and \<^verbatim>\<open>order_by("-article_point", "-create_dt")\<close>: a sort on
  the negated keys, the pair compared lexicographically.
\<close>

definition order_by_create_dt_desc :: "annotated list \<Rightarrow> annotated list" where
  "order_by_create_dt_desc rows = sort_key (\<lambda>r. - c_create_dt (a_row r)) rows"

definition order_by_article_point_desc :: "annotated list \<Rightarrow> annotated list" where
  "order_by_article_point_desc rows =
     sort_key (\<lambda>r. (- article_point r, - c_create_dt (a_row r))) rows"

section \<open>List and detail views of content\<close>

definition content_list_filtering :: "db \<Rightarrow> query_params \<Rightarrow> error + content_queryset" where
  "content_list_filtering s q =
     (if truthy (q_favorite_by q) then
        (if isdecimal (str_of (q_favorite_by q)) then
           (case objects_get u_id (users s) (int_of_str (str_of (q_favorite_by q))) of
              Inl e \<Rightarrow> Inl e
            | Inr u \<Rightarrow> Inr (qs_filter c_is_visible (user_favorite_contents s u)))
         else Inl InvalidQueryParamsException)
      else if truthy (q_liked_by q) then
        (if isdecimal (str_of (q_liked_by q)) then
           (case objects_get u_id (users s) (int_of_str (str_of (q_liked_by q))) of
              Inl e \<Rightarrow> Inl e
            | Inr u \<Rightarrow> Inr (qs_filter c_is_visible (user_liked_contents s u)))
         else Inl InvalidQueryParamsException)
      else if truthy (q_user q) then
        (if isdecimal (str_of (q_user q)) then
           Inr (qs_filter (\<lambda>c. c_is_visible c \<and> c_userinfo_id c = int_of_str (str_of (q_user q)))
                  (ContentInfo_objects s))
         else Inl InvalidQueryParamsException)
      else Inr (qs_filter c_is_visible (ContentInfo_objects s)))"

definition ContentListAPIView_get_queryset :: "db \<Rightarrow> int \<Rightarrow> query_params \<Rightarrow> error + annotated list" where
  "ContentListAPIView_get_queryset s now q =
     (case content_list_filtering s q of
        Inl e \<Rightarrow> Inl e
      | Inr rows \<Rightarrow>
          Inr (if q_order_by q = Some ''new''
               then order_by_create_dt_desc (list_annotate s now rows)
               else order_by_article_point_desc (list_annotate s now rows)))"

definition ContentDetailAPIView_get_queryset :: "db \<Rightarrow> int \<Rightarrow> nat \<Rightarrow> annotated list" where
  "ContentDetailAPIView_get_queryset s now content_id =
     (let row = qs_filter (\<lambda>c. c_id c = content_id \<and> c_is_visible c) (ContentInfo_objects s)
      in if qs_eval s row = [] then [] else detail_annotate s now row)"

section \<open>List view of comments\<close>




section \<open>A small database\<close>

text \<open>
  Two users, three content items (the third soft-deleted) and four comments (the one
  on item 6 soft-deleted), used to run the views on concrete requests.
\<close>

definition demo_db :: db where
  "demo_db =
     \<lparr>users = [\<lparr>u_id = 7, username = ''kim''\<rparr>, \<lparr>u_id = 9, username = ''lee''\<rparr>],
      contents =
        [\<lparr>c_id = 5, c_userinfo_id = 7, c_data = ''first'', c_create_dt = 0, c_is_visible = True\<rparr>,
         \<lparr>c_id = 6, c_userinfo_id = 9, c_data = ''second'', c_create_dt = 86400000000,
          c_is_visible = True\<rparr>,
         \<lparr>c_id = 8, c_userinfo_id = 7, c_data = ''gone'', c_create_dt = 5, c_is_visible = False\<rparr>],
      comments =
        [\<lparr>m_id = 1, m_userinfo_id = 9, m_contentinfo_id = 5, m_data = ''hello'',
          m_create_dt = 10, m_is_visible = True\<rparr>,
         \<lparr>m_id = 2, m_userinfo_id = 7, m_contentinfo_id = 6, m_data = ''removed'',
          m_create_dt = 86400000020, m_is_visible = False\<rparr>,
         \<lparr>m_id = 3, m_userinfo_id = 7, m_contentinfo_id = 5, m_data = ''thanks'',
          m_create_dt = 30, m_is_visible = True\<rparr>,
         \<lparr>m_id = 4, m_userinfo_id = 9, m_contentinfo_id = 5, m_data = ''again'',
          m_create_dt = 40, m_is_visible = True\<rparr>],
      favorite_contents = [(7, 6)],
      liked_contents = [(7, 5)],
      liked_comments = []\<rparr>"

text \<open>A serializer that rejects the empty payload and otherwise replaces the data.\<close>

definition demo_ser :: "string \<Rightarrow> string \<Rightarrow> string option" where
  "demo_ser old new = (if new = [] then None else Some new)"

section \<open>Lemmas on lookups and relations\<close>

lemma find_pk_Some: "find (\<lambda>r. pk r = i) tbl = Some r \<Longrightarrow> r \<in> set tbl \<and> pk r = i"
  by (induction tbl) (auto split: if_splits)

lemma find_pk_None: "find (\<lambda>r. pk r = i) tbl = None \<longleftrightarrow> (\<forall>r\<in>set tbl. pk r \<noteq> i)"
  by (induction tbl) auto

lemma get_object_or_404_Inr:
  "get_object_or_404 pk tbl i = Inr r \<Longrightarrow> r \<in> set tbl \<and> pk r = i"
  by (auto simp: get_object_or_404_def split: option.splits dest: find_pk_Some)

lemma objects_get_Inr:
  "objects_get pk tbl i = Inr r \<Longrightarrow> r \<in> set tbl \<and> pk r = i"
  by (auto simp: objects_get_def split: option.splits dest: find_pk_Some)

lemma rel_filter_exists_iff:
  "r \<in> set tbl \<Longrightarrow> pk r = t \<Longrightarrow> rel_filter_exists pk tbl link me t \<longleftrightarrow> (me, t) \<in> set link"
  by (auto simp: rel_filter_exists_def filter_empty_conv)

lemma set_rel_add: "set (rel_add link me t) = insert (me, t) (set link)"
  by (auto simp: rel_add_def)

lemma set_rel_remove: "set (rel_remove link me t) = set link - {(me, t)}"
  by (auto simp: rel_remove_def)

section \<open>Toggling a relation twice\<close>

text \<open>
  Each toggle view looks the actor and the target up in tables it does not write, so a
  second call right after the first finds both again and takes the other branch.
\<close>

lemma content_favorite_twice:
  assumes "content_favorite s u t = Inr (r1, s1)"
  shows "\<exists>r2 s2. content_favorite s1 u t = Inr (r2, s2)
           \<and> set (favorite_contents s2) = set (favorite_contents s)
           \<and> s2 = s\<lparr>favorite_contents := favorite_contents s2\<rparr>
           \<and> (body_get r1 ''message'' = Some (JStr ''Favorite content success.'')
                \<longrightarrow> body_get r2 ''message'' = Some (JStr ''Favorite content canceled.''))
           \<and> (body_get r1 ''message'' = Some (JStr ''Favorite content canceled.'')
                \<longrightarrow> body_get r2 ''message'' = Some (JStr ''Favorite content success.''))"
proof (cases u)
  case AnonymousUser
  with assms show ?thesis by (auto simp: Response_def body_get_def)
next
  case (User uid)
  from assms User obtain me where me: "objects_get u_id (users s) uid = Inr me"
    by (auto split: sum.splits)
  from assms User me obtain c where c: "get_object_or_404 c_id (contents s) t = Inr c"
    by (auto split: sum.splits)
  from get_object_or_404_Inr[OF c] have cin: "c \<in> set (contents s)" "c_id c = t" by auto
  have ex: "\<And>link me. rel_filter_exists c_id (contents s) link me t \<longleftrightarrow> (me, t) \<in> set link"
    using cin by (simp add: rel_filter_exists_iff)
  show ?thesis
  proof (cases "(u_id me, t) \<in> set (favorite_contents s)")
    case True
    with assms User me c cin ex show ?thesis
      by (auto simp: Response_def body_get_def set_rel_remove set_rel_add)
  next
    case False
    with assms User me c cin ex show ?thesis
      by (auto simp: Response_def body_get_def set_rel_remove set_rel_add)
  qed
qed

lemma content_like_twice:
  assumes "content_like s u t = Inr (r1, s1)"
  shows "\<exists>r2 s2. content_like s1 u t = Inr (r2, s2)
           \<and> set (liked_contents s2) = set (liked_contents s)
           \<and> s2 = s\<lparr>liked_contents := liked_contents s2\<rparr>
           \<and> (body_get r1 ''message'' = Some (JStr ''Like content success.'')
                \<longrightarrow> body_get r2 ''message'' = Some (JStr ''Like content canceled.''))
           \<and> (body_get r1 ''message'' = Some (JStr ''Like content canceled.'')
                \<longrightarrow> body_get r2 ''message'' = Some (JStr ''Like content success.''))"
proof (cases u)
  case AnonymousUser
  with assms show ?thesis by (auto simp: Response_def body_get_def)
next
  case (User uid)
  from assms User obtain me where me: "objects_get u_id (users s) uid = Inr me"
    by (auto split: sum.splits)
  from assms User me obtain c where c: "get_object_or_404 c_id (contents s) t = Inr c"
    by (auto split: sum.splits)
  from get_object_or_404_Inr[OF c] have cin: "c \<in> set (contents s)" "c_id c = t" by auto
  have ex: "\<And>link me. rel_filter_exists c_id (contents s) link me t \<longleftrightarrow> (me, t) \<in> set link"
    using cin by (simp add: rel_filter_exists_iff)
  show ?thesis
  proof (cases "(u_id me, t) \<in> set (liked_contents s)")
    case True
    with assms User me c cin ex show ?thesis
      by (auto simp: Response_def body_get_def set_rel_remove set_rel_add)
  next
    case False
    with assms User me c cin ex show ?thesis
      by (auto simp: Response_def body_get_def set_rel_remove set_rel_add)
  qed
qed

lemma comment_like_twice:
  assumes "comment_like s u t = Inr (r1, s1)"
  shows "\<exists>r2 s2. comment_like s1 u t = Inr (r2, s2)
           \<and> set (liked_comments s2) = set (liked_comments s)
           \<and> s2 = s\<lparr>liked_comments := liked_comments s2\<rparr>
           \<and> (body_get r1 ''message'' = Some (JStr ''Like comment success.'')
                \<longrightarrow> body_get r2 ''message'' = Some (JStr ''Like comment canceled.''))
           \<and> (body_get r1 ''message'' = Some (JStr ''Like comment canceled.'')
                \<longrightarrow> body_get r2 ''message'' = Some (JStr ''Like comment success.''))"
proof (cases u)
  case AnonymousUser
  with assms show ?thesis by (auto simp: Response_def body_get_def)
next
  case (User uid)
  from assms User obtain me where me: "objects_get u_id (users s) uid = Inr me"
    by (auto split: sum.splits)
  from assms User me obtain c where c: "get_object_or_404 m_id (comments s) t = Inr c"
    by (auto split: sum.splits)
  from get_object_or_404_Inr[OF c] have cin: "c \<in> set (comments s)" "m_id c = t" by auto
  have ex: "\<And>link me. rel_filter_exists m_id (comments s) link me t \<longleftrightarrow> (me, t) \<in> set link"
    using cin by (simp add: rel_filter_exists_iff)
  show ?thesis
  proof (cases "(u_id me, t) \<in> set (liked_comments s)")
    case True
    with assms User me c cin ex show ?thesis
      by (auto simp: Response_def body_get_def set_rel_remove set_rel_add)
  next
    case False
    with assms User me c cin ex show ?thesis
      by (auto simp: Response_def body_get_def set_rel_remove set_rel_add)
  qed
qed

text \<open>
  Claim C4. For every actor, target and initial state, when a favorite or like toggle
  answers, the same toggle issued again on the resulting state answers too, the link
  table then holds the same pairs as at the start and nothing else in the state has
  changed, and the second message is "canceled" when the first was "success" and
  "success" when the first was "canceled".
\<close>

theorem toggle_twice_restores:
  "(content_favorite s u t = Inr (r1, s1) \<longrightarrow>
      (\<exists>r2 s2. content_favorite s1 u t = Inr (r2, s2)
         \<and> set (favorite_contents s2) = set (favorite_contents s)
         \<and> s2 = s\<lparr>favorite_contents := favorite_contents s2\<rparr>
         \<and> (body_get r1 ''message'' = Some (JStr ''Favorite content success.'')
              \<longrightarrow> body_get r2 ''message'' = Some (JStr ''Favorite content canceled.''))
         \<and> (body_get r1 ''message'' = Some (JStr ''Favorite content canceled.'')
              \<longrightarrow> body_get r2 ''message'' = Some (JStr ''Favorite content success.''))))
   \<and> (content_like s u t = Inr (r1, s1) \<longrightarrow>
      (\<exists>r2 s2. content_like s1 u t = Inr (r2, s2)
         \<and> set (liked_contents s2) = set (liked_contents s)
         \<and> s2 = s\<lparr>liked_contents := liked_contents s2\<rparr>
         \<and> (body_get r1 ''message'' = Some (JStr ''Like content success.'')
              \<longrightarrow> body_get r2 ''message'' = Some (JStr ''Like content canceled.''))
         \<and> (body_get r1 ''message'' = Some (JStr ''Like content canceled.'')
              \<longrightarrow> body_get r2 ''message'' = Some (JStr ''Like content success.''))))
   \<and> (comment_like s u t = Inr (r1, s1) \<longrightarrow>
      (\<exists>r2 s2. comment_like s1 u t = Inr (r2, s2)
         \<and> set (liked_comments s2) = set (liked_comments s)
         \<and> s2 = s\<lparr>liked_comments := liked_comments s2\<rparr>
         \<and> (body_get r1 ''message'' = Some (JStr ''Like comment success.'')
              \<longrightarrow> body_get r2 ''message'' = Some (JStr ''Like comment canceled.''))
         \<and> (body_get r1 ''message'' = Some (JStr ''Like comment canceled.'')
              \<longrightarrow> body_get r2 ''message'' = Some (JStr ''Like comment success.''))))"
  using content_favorite_twice[of s u t r1 s1] content_like_twice[of s u t r1 s1]
    comment_like_twice[of s u t r1 s1]
  by blast

text \<open>User 9 likes content 5 of the small database, then toggles again.\<close>

lemma demo_like_9_5:
  "content_like demo_db (User 9) 5 =
     Inr (Response (Dict [(''message'', JStr ''Like content success.''),
                          (''user'', JStr ''lee''), (''content_id'', JInt 5)]) 200,
          demo_db\<lparr>liked_contents := [(7, 5), (9, 5)]\<rparr>)"
  by (simp add: demo_db_def objects_get_def get_object_or_404_def rel_filter_exists_def
        rel_add_def)

theorem toggle_twice_restores_witness:
  "\<exists>r2 s2. content_like (demo_db\<lparr>liked_contents := [(7, 5), (9, 5)]\<rparr>) (User 9) 5 = Inr (r2, s2)
     \<and> set (liked_contents s2) = set (liked_contents demo_db)
     \<and> body_get r2 ''message'' = Some (JStr ''Like content canceled.'')"
proof -
  let ?R = "Response (Dict [(''message'', JStr ''Like content success.''),
                            (''user'', JStr ''lee''), (''content_id'', JInt 5)]) 200"
  let ?S = "demo_db\<lparr>liked_contents := [(7, 5), (9, 5)]\<rparr>"
  have first: "content_like demo_db (User 9) 5 = Inr (?R, ?S)"
    by (rule demo_like_9_5)
  have msg: "body_get ?R ''message'' = Some (JStr ''Like content success.'')"
    by (simp add: body_get_def Response_def)
  from toggle_twice_restores[of demo_db "User 9" 5 ?R ?S] first
  obtain r2 s2 where "content_like ?S (User 9) 5 = Inr (r2, s2)"
    "set (liked_contents s2) = set (liked_contents demo_db)"
    "body_get ?R ''message'' = Some (JStr ''Like content success.'')
       \<longrightarrow> body_get r2 ''message'' = Some (JStr ''Like content canceled.'')"
    by blast
  with msg show ?thesis by blast
qed

section \<open>Bodies of the toggle responses\<close>

lemma content_favorite_body:
  assumes "content_favorite s u t = Inr (r, s')" and "r_status r = 200"
  shows "\<exists>me\<in>set (users s). u = User (u_id me) \<and>
           r_data r =
             (if (u_id me, t) \<in> set (favorite_contents s)
              then Dict [(''message'', JStr ''Favorite content canceled.'')]
              else Dict [(''message'', JStr ''Favorite content success.''),
                         (''user'', JStr (username me)), (''content_id'', JInt t)])"
proof (cases u)
  case AnonymousUser
  with assms show ?thesis by (auto simp: Response_def)
next
  case (User uid)
  from assms User obtain me where me: "objects_get u_id (users s) uid = Inr me"
    by (auto split: sum.splits)
  from assms User me obtain c where c: "get_object_or_404 c_id (contents s) t = Inr c"
    by (auto split: sum.splits)
  from get_object_or_404_Inr[OF c] have cin: "c \<in> set (contents s)" "c_id c = t" by auto
  from objects_get_Inr[OF me] have min: "me \<in> set (users s)" "u_id me = uid" by auto
  have ex: "\<And>link me. rel_filter_exists c_id (contents s) link me t \<longleftrightarrow> (me, t) \<in> set link"
    using cin by (simp add: rel_filter_exists_iff)
  have "r_data r =
             (if (u_id me, t) \<in> set (favorite_contents s)
              then Dict [(''message'', JStr ''Favorite content canceled.'')]
              else Dict [(''message'', JStr ''Favorite content success.''),
                         (''user'', JStr (username me)), (''content_id'', JInt t)])"
    using assms User me c cin ex by (auto simp: Response_def split: if_splits)
  with min User show ?thesis by blast
qed

lemma content_like_body:
  assumes "content_like s u t = Inr (r, s')" and "r_status r = 200"
  shows "\<exists>me\<in>set (users s). u = User (u_id me) \<and>
           r_data r =
             (if (u_id me, t) \<in> set (liked_contents s)
              then Dict [(''message'', JStr ''Like content canceled.'')]
              else Dict [(''message'', JStr ''Like content success.''),
                         (''user'', JStr (username me)), (''content_id'', JInt t)])"
proof (cases u)
  case AnonymousUser
  with assms show ?thesis by (auto simp: Response_def)
next
  case (User uid)
  from assms User obtain me where me: "objects_get u_id (users s) uid = Inr me"
    by (auto split: sum.splits)
  from assms User me obtain c where c: "get_object_or_404 c_id (contents s) t = Inr c"
    by (auto split: sum.splits)
  from get_object_or_404_Inr[OF c] have cin: "c \<in> set (contents s)" "c_id c = t" by auto
  from objects_get_Inr[OF me] have min: "me \<in> set (users s)" "u_id me = uid" by auto
  have ex: "\<And>link me. rel_filter_exists c_id (contents s) link me t \<longleftrightarrow> (me, t) \<in> set link"
    using cin by (simp add: rel_filter_exists_iff)
  have "r_data r =
             (if (u_id me, t) \<in> set (liked_contents s)
              then Dict [(''message'', JStr ''Like content canceled.'')]
              else Dict [(''message'', JStr ''Like content success.''),
                         (''user'', JStr (username me)), (''content_id'', JInt t)])"
    using assms User me c cin ex by (auto simp: Response_def split: if_splits)
  with min User show ?thesis by blast
qed

lemma comment_like_body:
  assumes "comment_like s u t = Inr (r, s')" and "r_status r = 200"
  shows "\<exists>me\<in>set (users s). u = User (u_id me) \<and>
           r_data r =
             (if (u_id me, t) \<in> set (liked_comments s)
              then Dict [(''message'', JStr ''Like comment canceled.'')]
              else Dict [(''message'', JStr ''Like comment success.''),
                         (''user'', JStr (username me)), (''content_id'', JInt t)])"
proof (cases u)
  case AnonymousUser
  with assms show ?thesis by (auto simp: Response_def)
next
  case (User uid)
  from assms User obtain me where me: "objects_get u_id (users s) uid = Inr me"
    by (auto split: sum.splits)
  from assms User me obtain c where c: "get_object_or_404 m_id (comments s) t = Inr c"
    by (auto split: sum.splits)
  from get_object_or_404_Inr[OF c] have cin: "c \<in> set (comments s)" "m_id c = t" by auto
  from objects_get_Inr[OF me] have min: "me \<in> set (users s)" "u_id me = uid" by auto
  have ex: "\<And>link me. rel_filter_exists m_id (comments s) link me t \<longleftrightarrow> (me, t) \<in> set link"
    using cin by (simp add: rel_filter_exists_iff)
  have "r_data r =
             (if (u_id me, t) \<in> set (liked_comments s)
              then Dict [(''message'', JStr ''Like comment canceled.'')]
              else Dict [(''message'', JStr ''Like comment success.''),
                         (''user'', JStr (username me)), (''content_id'', JInt t)])"
    using assms User me c cin ex by (auto simp: Response_def split: if_splits)
  with min User show ?thesis by blast
qed

text \<open>
  Claim C7 as stated fails: user 7 already likes content 5 of the small database, the
  toggle takes the remove branch and answers 200 with a body that holds the message only,
  without \<open>user\<close> and without \<open>content_id\<close>.
\<close>

theorem toggle_cancel_body_counterexample:
  "content_like demo_db (User 7) 5 =
     Inr (Response (Dict [(''message'', JStr ''Like content canceled.'')]) 200,
          demo_db\<lparr>liked_contents := []\<rparr>)
   \<and> r_status (Response (Dict [(''message'', JStr ''Like content canceled.'')]) 200) = 200
   \<and> body_get (Response (Dict [(''message'', JStr ''Like content canceled.'')]) 200) ''user'' = None
   \<and> body_get (Response (Dict [(''message'', JStr ''Like content canceled.'')]) 200) ''content_id''
       = None"
  by (simp add: demo_db_def objects_get_def get_object_or_404_def rel_filter_exists_def
        rel_remove_def Response_def body_get_def)

text \<open>
  Claim C7, amended. Every 200 response of the three toggle views comes from an
  authenticated actor stored in the user table; when the pair was absent (insert branch)
  its body is exactly the message "success", the actor's user name under \<open>user\<close> and
  the target id under \<open>content_id\<close>; when the pair was present (remove branch) its
  body is the message "canceled" alone.
\<close>

theorem toggle_response_body:
  "(content_favorite s u t = Inr (r, s') \<and> r_status r = 200 \<longrightarrow>
      (\<exists>me\<in>set (users s). u = User (u_id me) \<and>
         r_data r =
           (if (u_id me, t) \<in> set (favorite_contents s)
            then Dict [(''message'', JStr ''Favorite content canceled.'')]
            else Dict [(''message'', JStr ''Favorite content success.''),
                       (''user'', JStr (username me)), (''content_id'', JInt t)])))
   \<and> (content_like s u t = Inr (r, s') \<and> r_status r = 200 \<longrightarrow>
      (\<exists>me\<in>set (users s). u = User (u_id me) \<and>
         r_data r =
           (if (u_id me, t) \<in> set (liked_contents s)
            then Dict [(''message'', JStr ''Like content canceled.'')]
            else Dict [(''message'', JStr ''Like content success.''),
                       (''user'', JStr (username me)), (''content_id'', JInt t)])))
   \<and> (comment_like s u t = Inr (r, s') \<and> r_status r = 200 \<longrightarrow>
      (\<exists>me\<in>set (users s). u = User (u_id me) \<and>
         r_data r =
           (if (u_id me, t) \<in> set (liked_comments s)
            then Dict [(''message'', JStr ''Like comment canceled.'')]
            else Dict [(''message'', JStr ''Like comment success.''),
                       (''user'', JStr (username me)), (''content_id'', JInt t)])))"
  using content_favorite_body[of s u t r s'] content_like_body[of s u t r s']
    comment_like_body[of s u t r s']
  by blast

text \<open>User 9 marks content 6 of the small database as a favorite.\<close>

lemma demo_favorite_9_6:
  "content_favorite demo_db (User 9) 6 =
     Inr (Response (Dict [(''message'', JStr ''Favorite content success.''),
                          (''user'', JStr ''lee''), (''content_id'', JInt 6)]) 200,
          demo_db\<lparr>favorite_contents := [(7, 6), (9, 6)]\<rparr>)"
  by (simp add: demo_db_def objects_get_def get_object_or_404_def rel_filter_exists_def
        rel_add_def)

theorem toggle_response_body_witness:
  "content_favorite demo_db (User 9) 6 =
     Inr (Response (Dict [(''message'', JStr ''Favorite content success.''),
                          (''user'', JStr ''lee''), (''content_id'', JInt 6)]) 200,
          demo_db\<lparr>favorite_contents := [(7, 6), (9, 6)]\<rparr>)
   \<and> (\<exists>me\<in>set (users demo_db). User 9 = User (u_id me) \<and>
         Dict [(''message'', JStr ''Favorite content success.''),
               (''user'', JStr ''lee''), (''content_id'', JInt 6)] =
           (if (u_id me, 6) \<in> set (favorite_contents demo_db)
            then Dict [(''message'', JStr ''Favorite content canceled.'')]
            else Dict [(''message'', JStr ''Favorite content success.''),
                       (''user'', JStr (username me)), (''content_id'', JInt 6)]))"
proof -
  let ?R = "Response (Dict [(''message'', JStr ''Favorite content success.''),
                            (''user'', JStr ''lee''), (''content_id'', JInt 6)]) 200"
  let ?S = "demo_db\<lparr>favorite_contents := [(7, 6), (9, 6)]\<rparr>"
  have run: "content_favorite demo_db (User 9) 6 = Inr (?R, ?S)"
    by (rule demo_favorite_9_6)
  have ok: "r_status ?R = 200" and dat: "r_data ?R = Dict [(''message'', JStr ''Favorite content success.''),
                            (''user'', JStr ''lee''), (''content_id'', JInt 6)]"
    by (simp_all add: Response_def)
  from toggle_response_body[of demo_db "User 9" 6 ?R ?S] run ok
  have "\<exists>me\<in>set (users demo_db). User 9 = User (u_id me) \<and>
         r_data ?R =
           (if (u_id me, 6) \<in> set (favorite_contents demo_db)
            then Dict [(''message'', JStr ''Favorite content canceled.'')]
            else Dict [(''message'', JStr ''Favorite content success.''),
                       (''user'', JStr (username me)), (''content_id'', JInt 6)])"
    by blast
  with run dat show ?thesis by simp
qed

section \<open>Update and delete\<close>

text \<open>With primary keys that are unique, the lookup by id returns the stored row.\<close>

lemma find_distinct_pk:
  "distinct (map pk tbl) \<Longrightarrow> row \<in> set tbl \<Longrightarrow> find (\<lambda>r. pk r = pk row) tbl = Some row"
proof (induction tbl)
  case Nil
  then show ?case by simp
next
  case (Cons x xs)
  show ?case
  proof (cases "x = row")
    case True
    then show ?thesis by simp
  next
    case False
    with Cons.prems have mem: "row \<in> set xs" by simp
    then have "pk row \<in> set (map pk xs)" by simp
    with Cons.prems have "pk x \<noteq> pk row" by auto
    with Cons mem show ?thesis by simp
  qed
qed

lemma get_object_or_404_distinct:
  "distinct (map pk tbl) \<Longrightarrow> row \<in> set tbl \<Longrightarrow> get_object_or_404 pk tbl (pk row) = Inr row"
  by (simp add: get_object_or_404_def find_distinct_pk)

lemma get_object_or_404_Inl:
  "get_object_or_404 pk tbl i = Inl e \<longleftrightarrow> e = Http404 \<and> (\<forall>r\<in>set tbl. pk r \<noteq> i)"
  by (auto simp: get_object_or_404_def find_pk_None split: option.splits
      dest: find_pk_Some)

lemma save_row_mem:
  "row \<in> set tbl \<Longrightarrow> pk row' = pk row \<Longrightarrow> row' \<in> set (save_row pk row' tbl)"
  by (force simp: save_row_def)

lemma content_put_404:
  "ContentDetailAPIView_put ser s user i data = Inl Http404 \<longleftrightarrow> (\<forall>c\<in>set (contents s). c_id c \<noteq> i)"
proof (cases "get_object_or_404 c_id (contents s) i")
  case (Inl e)
  then show ?thesis
    using get_object_or_404_Inl[of c_id "contents s" i e] by (simp add: ContentDetailAPIView_put_def)
next
  case (Inr row)
  from get_object_or_404_Inr[OF Inr] have "\<not> (\<forall>c\<in>set (contents s). c_id c \<noteq> i)" by blast
  with Inr show ?thesis
    by (simp add: ContentDetailAPIView_put_def Response_def split: option.splits)
qed

lemma content_delete_404:
  "ContentDetailAPIView_delete s user i = Inl Http404 \<longleftrightarrow> (\<forall>c\<in>set (contents s). c_id c \<noteq> i)"
proof (cases "get_object_or_404 c_id (contents s) i")
  case (Inl e)
  then show ?thesis
    using get_object_or_404_Inl[of c_id "contents s" i e] by (simp add: ContentDetailAPIView_delete_def)
next
  case (Inr row)
  from get_object_or_404_Inr[OF Inr] have "\<not> (\<forall>c\<in>set (contents s). c_id c \<noteq> i)" by blast
  with Inr show ?thesis
    by (simp add: ContentDetailAPIView_delete_def Response_def)
qed

lemma comment_put_404:
  "CommentDetailAPIView_put ser s user i data = Inl Http404 \<longleftrightarrow> (\<forall>m\<in>set (comments s). m_id m \<noteq> i)"
proof (cases "get_object_or_404 m_id (comments s) i")
  case (Inl e)
  then show ?thesis
    using get_object_or_404_Inl[of m_id "comments s" i e] by (simp add: CommentDetailAPIView_put_def)
next
  case (Inr row)
  from get_object_or_404_Inr[OF Inr] have "\<not> (\<forall>m\<in>set (comments s). m_id m \<noteq> i)" by blast
  with Inr show ?thesis
    by (simp add: CommentDetailAPIView_put_def Response_def split: option.splits)
qed

lemma comment_delete_404:
  "CommentDetailAPIView_delete s user i = Inl Http404 \<longleftrightarrow> (\<forall>m\<in>set (comments s). m_id m \<noteq> i)"
proof (cases "get_object_or_404 m_id (comments s) i")
  case (Inl e)
  then show ?thesis
    using get_object_or_404_Inl[of m_id "comments s" i e] by (simp add: CommentDetailAPIView_delete_def)
next
  case (Inr row)
  from get_object_or_404_Inr[OF Inr] have "\<not> (\<forall>m\<in>set (comments s). m_id m \<noteq> i)" by blast
  with Inr show ?thesis
    by (simp add: CommentDetailAPIView_delete_def Response_def)
qed

lemma content_non_owner:
  assumes "distinct (map c_id (contents s))" "row \<in> set (contents s)"
    "user_pk user \<noteq> Some (c_userinfo_id row)"
  shows "ContentDetailAPIView_put ser s user (c_id row) data = Inr (Response NoData 403, s)"
    and "ContentDetailAPIView_delete s user (c_id row) = Inr (Response NoData 403, s)"
  using assms get_object_or_404_distinct[of c_id "contents s" row]
  by (simp_all add: ContentDetailAPIView_put_def ContentDetailAPIView_delete_def)

lemma comment_non_owner:
  assumes "distinct (map m_id (comments s))" "row \<in> set (comments s)"
    "user_pk user \<noteq> Some (m_userinfo_id row)"
  shows "CommentDetailAPIView_put ser s user (m_id row) data = Inr (Response NoData 403, s)"
    and "CommentDetailAPIView_delete s user (m_id row) = Inr (Response NoData 403, s)"
  using assms get_object_or_404_distinct[of m_id "comments s" row]
  by (simp_all add: CommentDetailAPIView_put_def CommentDetailAPIView_delete_def)

lemma content_owner:
  assumes "distinct (map c_id (contents s))" "row \<in> set (contents s)"
    "user_pk user = Some (c_userinfo_id row)"
  shows "ContentDetailAPIView_delete s user (c_id row) =
           Inr (Response NoData 204,
                s\<lparr>contents := save_row c_id (row\<lparr>c_is_visible := False\<rparr>) (contents s)\<rparr>)"
    and "ser (c_data row) data = Some d \<Longrightarrow>
         ContentDetailAPIView_put ser s user (c_id row) data =
           Inr (Response (ContentData (row\<lparr>c_data := d\<rparr>)) 200,
                s\<lparr>contents := save_row c_id (row\<lparr>c_data := d\<rparr>) (contents s)\<rparr>)"
    and "ser (c_data row) data = None \<Longrightarrow>
         ContentDetailAPIView_put ser s user (c_id row) data = Inl ValidationError"
  using assms get_object_or_404_distinct[of c_id "contents s" row]
  by (simp_all add: ContentDetailAPIView_put_def ContentDetailAPIView_delete_def)

lemma comment_owner:
  assumes "distinct (map m_id (comments s))" "row \<in> set (comments s)"
    "user_pk user = Some (m_userinfo_id row)"
  shows "CommentDetailAPIView_delete s user (m_id row) =
           Inr (Response NoData 204,
                s\<lparr>comments := save_row m_id (row\<lparr>m_is_visible := False\<rparr>) (comments s)\<rparr>)"
    and "ser (m_data row) data = Some d \<Longrightarrow>
         CommentDetailAPIView_put ser s user (m_id row) data =
           Inr (Response (CommentData (row\<lparr>m_data := d\<rparr>)) 202,
                s\<lparr>comments := save_row m_id (row\<lparr>m_data := d\<rparr>) (comments s)\<rparr>)"
    and "ser (m_data row) data = None \<Longrightarrow>
         CommentDetailAPIView_put ser s user (m_id row) data = Inl ValidationError"
  using assms get_object_or_404_distinct[of m_id "comments s" row]
  by (simp_all add: CommentDetailAPIView_put_def CommentDetailAPIView_delete_def)


text \<open>
  Claim C6. Update and delete of content and of comments raise the 404 error exactly
  when no stored row has the id. A stored row is found whatever its visibility flag
  (the lookup has no condition on it), so a soft-deleted row is found as well: a
  requester other than its owner gets 403, and for its owner delete answers 204 and
  writes the row back with the flag false, while update answers with the row changed
  by the serializer (or raises the serializer's validation error) and writes it back.
\<close>

theorem mutation_lookup_by_raw_id:
  "(ContentDetailAPIView_put ser s user i data = Inl Http404
      \<longleftrightarrow> (\<forall>c\<in>set (contents s). c_id c \<noteq> i))
   \<and> (ContentDetailAPIView_delete s user i = Inl Http404
      \<longleftrightarrow> (\<forall>c\<in>set (contents s). c_id c \<noteq> i))
   \<and> (CommentDetailAPIView_put ser s user i data = Inl Http404
      \<longleftrightarrow> (\<forall>m\<in>set (comments s). m_id m \<noteq> i))
   \<and> (CommentDetailAPIView_delete s user i = Inl Http404
      \<longleftrightarrow> (\<forall>m\<in>set (comments s). m_id m \<noteq> i))
   \<and> (distinct (map c_id (contents s)) \<and> row \<in> set (contents s) \<longrightarrow>
        (if user_pk user = Some (c_userinfo_id row)
         then ContentDetailAPIView_delete s user (c_id row) =
                Inr (Response NoData 204,
                     s\<lparr>contents := save_row c_id (row\<lparr>c_is_visible := False\<rparr>) (contents s)\<rparr>)
            \<and> row\<lparr>c_is_visible := False\<rparr>
                 \<in> set (save_row c_id (row\<lparr>c_is_visible := False\<rparr>) (contents s))
            \<and> ContentDetailAPIView_put ser s user (c_id row) data =
                (case ser (c_data row) data of
                   None \<Rightarrow> Inl ValidationError
                 | Some d \<Rightarrow>
                     Inr (Response (ContentData (row\<lparr>c_data := d\<rparr>)) 200,
                          s\<lparr>contents := save_row c_id (row\<lparr>c_data := d\<rparr>) (contents s)\<rparr>))
            \<and> (\<forall>d. row\<lparr>c_data := d\<rparr> \<in> set (save_row c_id (row\<lparr>c_data := d\<rparr>) (contents s)))
         else ContentDetailAPIView_put ser s user (c_id row) data = Inr (Response NoData 403, s)
            \<and> ContentDetailAPIView_delete s user (c_id row) = Inr (Response NoData 403, s)))
   \<and> (distinct (map m_id (comments s)) \<and> mrow \<in> set (comments s) \<longrightarrow>
        (if user_pk user = Some (m_userinfo_id mrow)
         then CommentDetailAPIView_delete s user (m_id mrow) =
                Inr (Response NoData 204,
                     s\<lparr>comments := save_row m_id (mrow\<lparr>m_is_visible := False\<rparr>) (comments s)\<rparr>)
            \<and> mrow\<lparr>m_is_visible := False\<rparr>
                 \<in> set (save_row m_id (mrow\<lparr>m_is_visible := False\<rparr>) (comments s))
            \<and> CommentDetailAPIView_put ser s user (m_id mrow) data =
                (case ser (m_data mrow) data of
                   None \<Rightarrow> Inl ValidationError
                 | Some d \<Rightarrow>
                     Inr (Response (CommentData (mrow\<lparr>m_data := d\<rparr>)) 202,
                          s\<lparr>comments := save_row m_id (mrow\<lparr>m_data := d\<rparr>) (comments s)\<rparr>))
            \<and> (\<forall>d. mrow\<lparr>m_data := d\<rparr> \<in> set (save_row m_id (mrow\<lparr>m_data := d\<rparr>) (comments s)))
         else CommentDetailAPIView_put ser s user (m_id mrow) data = Inr (Response NoData 403, s)
            \<and> CommentDetailAPIView_delete s user (m_id mrow) = Inr (Response NoData 403, s)))"
proof -
  have content_part: "if user_pk user = Some (c_userinfo_id row)
         then ContentDetailAPIView_delete s user (c_id row) =
                Inr (Response NoData 204,
                     s\<lparr>contents := save_row c_id (row\<lparr>c_is_visible := False\<rparr>) (contents s)\<rparr>)
            \<and> row\<lparr>c_is_visible := False\<rparr>
                 \<in> set (save_row c_id (row\<lparr>c_is_visible := False\<rparr>) (contents s))
            \<and> ContentDetailAPIView_put ser s user (c_id row) data =
                (case ser (c_data row) data of
                   None \<Rightarrow> Inl ValidationError
                 | Some d \<Rightarrow>
                     Inr (Response (ContentData (row\<lparr>c_data := d\<rparr>)) 200,
                          s\<lparr>contents := save_row c_id (row\<lparr>c_data := d\<rparr>) (contents s)\<rparr>))
            \<and> (\<forall>d. row\<lparr>c_data := d\<rparr> \<in> set (save_row c_id (row\<lparr>c_data := d\<rparr>) (contents s)))
         else ContentDetailAPIView_put ser s user (c_id row) data = Inr (Response NoData 403, s)
            \<and> ContentDetailAPIView_delete s user (c_id row) = Inr (Response NoData 403, s)"
    if h: "distinct (map c_id (contents s))" "row \<in> set (contents s)"
  proof (cases "user_pk user = Some (c_userinfo_id row)")
    case True
    have "ContentDetailAPIView_put ser s user (c_id row) data =
                (case ser (c_data row) data of
                   None \<Rightarrow> Inl ValidationError
                 | Some d \<Rightarrow>
                     Inr (Response (ContentData (row\<lparr>c_data := d\<rparr>)) 200,
                          s\<lparr>contents := save_row c_id (row\<lparr>c_data := d\<rparr>) (contents s)\<rparr>))"
      using content_owner(2,3)[OF h True, of ser data] by (cases "ser (c_data row) data") simp_all
    with True content_owner(1)[OF h True] h(2) show ?thesis
      by (simp add: save_row_mem)
  next
    case False
    with content_non_owner[OF h False] show ?thesis by simp
  qed
  have comment_part: "if user_pk user = Some (m_userinfo_id mrow)
         then CommentDetailAPIView_delete s user (m_id mrow) =
                Inr (Response NoData 204,
                     s\<lparr>comments := save_row m_id (mrow\<lparr>m_is_visible := False\<rparr>) (comments s)\<rparr>)
            \<and> mrow\<lparr>m_is_visible := False\<rparr>
                 \<in> set (save_row m_id (mrow\<lparr>m_is_visible := False\<rparr>) (comments s))
            \<and> CommentDetailAPIView_put ser s user (m_id mrow) data =
                (case ser (m_data mrow) data of
                   None \<Rightarrow> Inl ValidationError
                 | Some d \<Rightarrow>
                     Inr (Response (CommentData (mrow\<lparr>m_data := d\<rparr>)) 202,
                          s\<lparr>comments := save_row m_id (mrow\<lparr>m_data := d\<rparr>) (comments s)\<rparr>))
            \<and> (\<forall>d. mrow\<lparr>m_data := d\<rparr> \<in> set (save_row m_id (mrow\<lparr>m_data := d\<rparr>) (comments s)))
         else CommentDetailAPIView_put ser s user (m_id mrow) data = Inr (Response NoData 403, s)
            \<and> CommentDetailAPIView_delete s user (m_id mrow) = Inr (Response NoData 403, s)"
    if h: "distinct (map m_id (comments s))" "mrow \<in> set (comments s)"
  proof (cases "user_pk user = Some (m_userinfo_id mrow)")
    case True
    have "CommentDetailAPIView_put ser s user (m_id mrow) data =
                (case ser (m_data mrow) data of
                   None \<Rightarrow> Inl ValidationError
                 | Some d \<Rightarrow>
                     Inr (Response (CommentData (mrow\<lparr>m_data := d\<rparr>)) 202,
                          s\<lparr>comments := save_row m_id (mrow\<lparr>m_data := d\<rparr>) (comments s)\<rparr>))"
      using comment_owner(2,3)[OF h True, of ser data] by (cases "ser (m_data mrow) data") simp_all
    with True comment_owner(1)[OF h True] h(2) show ?thesis
      by (simp add: save_row_mem)
  next
    case False
    with comment_non_owner[OF h False] show ?thesis by simp
  qed
  from content_part comment_part show ?thesis
    using content_put_404[of ser s user i data] content_delete_404[of s user i]
      comment_put_404[of ser s user i data] comment_delete_404[of s user i]
    by blast
qed

text \<open>
  Content 8 of the small database is soft-deleted and owned by user 7; no row has id 99.
\<close>

theorem mutation_lookup_by_raw_id_witness:
  "ContentDetailAPIView_delete demo_db (User 7) 99 = Inl Http404
   \<and> ContentDetailAPIView_delete demo_db (User 7) 8 =
       Inr (Response NoData 204,
            demo_db\<lparr>contents := save_row c_id
               \<lparr>c_id = 8, c_userinfo_id = 7, c_data = ''gone'', c_create_dt = 5,
                c_is_visible = False\<rparr> (contents demo_db)\<rparr>)
   \<and> ContentDetailAPIView_put demo_ser demo_db (User 7) 8 ''back'' =
       Inr (Response (ContentData \<lparr>c_id = 8, c_userinfo_id = 7, c_data = ''back'',
                                   c_create_dt = 5, c_is_visible = False\<rparr>) 200,
            demo_db\<lparr>contents := save_row c_id
               \<lparr>c_id = 8, c_userinfo_id = 7, c_data = ''back'', c_create_dt = 5,
                c_is_visible = False\<rparr> (contents demo_db)\<rparr>)
   \<and> ContentDetailAPIView_delete demo_db (User 9) 8 = Inr (Response NoData 403, demo_db)"
proof -
  let ?row = "\<lparr>c_id = 8, c_userinfo_id = 7, c_data = ''gone'', c_create_dt = 5,
                c_is_visible = False\<rparr>"
  have absent: "\<forall>c\<in>set (contents demo_db). c_id c \<noteq> 99"
    by (simp add: demo_db_def)
  have stored: "distinct (map c_id (contents demo_db)) \<and> ?row \<in> set (contents demo_db)"
    by (simp add: demo_db_def)
  have owner: "user_pk (User 7) = Some (c_userinfo_id ?row)"
    and other: "user_pk (User 9) \<noteq> Some (c_userinfo_id ?row)"
    and valid: "demo_ser (c_data ?row) ''back'' = Some ''back''"
    by (simp_all add: demo_ser_def)
  from absent mutation_lookup_by_raw_id[of demo_ser demo_db "User 7" 99 "''back''"]
  have 1: "ContentDetailAPIView_delete demo_db (User 7) 99 = Inl Http404"
    by blast
  from stored mutation_lookup_by_raw_id[of demo_ser demo_db "User 7" 99 "''back''" ?row]
  have "if user_pk (User 7) = Some (c_userinfo_id ?row)
        then ContentDetailAPIView_delete demo_db (User 7) (c_id ?row) =
               Inr (Response NoData 204,
                    demo_db\<lparr>contents := save_row c_id (?row\<lparr>c_is_visible := False\<rparr>)
                                            (contents demo_db)\<rparr>)
           \<and> ?row\<lparr>c_is_visible := False\<rparr>
                \<in> set (save_row c_id (?row\<lparr>c_is_visible := False\<rparr>) (contents demo_db))
           \<and> ContentDetailAPIView_put demo_ser demo_db (User 7) (c_id ?row) ''back'' =
               (case demo_ser (c_data ?row) ''back'' of
                  None \<Rightarrow> Inl ValidationError
                | Some d \<Rightarrow>
                    Inr (Response (ContentData (?row\<lparr>c_data := d\<rparr>)) 200,
                         demo_db\<lparr>contents := save_row c_id (?row\<lparr>c_data := d\<rparr>)
                                                 (contents demo_db)\<rparr>))
           \<and> (\<forall>d. ?row\<lparr>c_data := d\<rparr>
                   \<in> set (save_row c_id (?row\<lparr>c_data := d\<rparr>) (contents demo_db)))
        else ContentDetailAPIView_put demo_ser demo_db (User 7) (c_id ?row) ''back''
               = Inr (Response NoData 403, demo_db)
           \<and> ContentDetailAPIView_delete demo_db (User 7) (c_id ?row)
               = Inr (Response NoData 403, demo_db)"
    by blast
  with owner valid
  have 2: "ContentDetailAPIView_delete demo_db (User 7) (c_id ?row) =
               Inr (Response NoData 204,
                    demo_db\<lparr>contents := save_row c_id (?row\<lparr>c_is_visible := False\<rparr>)
                                            (contents demo_db)\<rparr>)"
    and 3: "ContentDetailAPIView_put demo_ser demo_db (User 7) (c_id ?row) ''back'' =
               Inr (Response (ContentData (?row\<lparr>c_data := ''back''\<rparr>)) 200,
                    demo_db\<lparr>contents := save_row c_id (?row\<lparr>c_data := ''back''\<rparr>)
                                            (contents demo_db)\<rparr>)"
    by simp_all
  from stored mutation_lookup_by_raw_id[of demo_ser demo_db "User 9" 99 "''back''" ?row]
  have "if user_pk (User 9) = Some (c_userinfo_id ?row)
        then ContentDetailAPIView_delete demo_db (User 9) (c_id ?row) =
               Inr (Response NoData 204,
                    demo_db\<lparr>contents := save_row c_id (?row\<lparr>c_is_visible := False\<rparr>)
                                            (contents demo_db)\<rparr>)
           \<and> ?row\<lparr>c_is_visible := False\<rparr>
                \<in> set (save_row c_id (?row\<lparr>c_is_visible := False\<rparr>) (contents demo_db))
           \<and> ContentDetailAPIView_put demo_ser demo_db (User 9) (c_id ?row) ''back'' =
               (case demo_ser (c_data ?row) ''back'' of
                  None \<Rightarrow> Inl ValidationError
                | Some d \<Rightarrow>
                    Inr (Response (ContentData (?row\<lparr>c_data := d\<rparr>)) 200,
                         demo_db\<lparr>contents := save_row c_id (?row\<lparr>c_data := d\<rparr>)
                                                 (contents demo_db)\<rparr>))
           \<and> (\<forall>d. ?row\<lparr>c_data := d\<rparr>
                   \<in> set (save_row c_id (?row\<lparr>c_data := d\<rparr>) (contents demo_db)))
        else ContentDetailAPIView_put demo_ser demo_db (User 9) (c_id ?row) ''back''
               = Inr (Response NoData 403, demo_db)
           \<and> ContentDetailAPIView_delete demo_db (User 9) (c_id ?row)
               = Inr (Response NoData 403, demo_db)"
    by blast
  with other have 4: "ContentDetailAPIView_delete demo_db (User 9) (c_id ?row)
               = Inr (Response NoData 403, demo_db)"
    by simp
  from 1 2 3 4 show ?thesis by simp
qed


text \<open>
  Claim C9. For a stored content item or comment and a requester whose id differs from
  the owner id of the row, update and delete answer 403 with an empty body and leave
  the database as it was, for every serializer and every payload.
\<close>

theorem non_owner_forbidden:
  "(distinct (map c_id (contents s)) \<and> row \<in> set (contents s)
      \<and> user_pk user \<noteq> Some (c_userinfo_id row) \<longrightarrow>
        ContentDetailAPIView_put ser s user (c_id row) data = Inr (Response NoData 403, s)
      \<and> ContentDetailAPIView_delete s user (c_id row) = Inr (Response NoData 403, s))
   \<and> (distinct (map m_id (comments s)) \<and> mrow \<in> set (comments s)
      \<and> user_pk user \<noteq> Some (m_userinfo_id mrow) \<longrightarrow>
        CommentDetailAPIView_put ser s user (m_id mrow) data = Inr (Response NoData 403, s)
      \<and> CommentDetailAPIView_delete s user (m_id mrow) = Inr (Response NoData 403, s))"
  by (simp add: content_non_owner comment_non_owner)


text \<open>
  User 9 and the anonymous user on rows of user 7 and user 9, with an empty (rejected)
  and a non-empty (accepted) payload.
\<close>

theorem non_owner_forbidden_witness:
  "ContentDetailAPIView_put demo_ser demo_db (User 9) 5 [] = Inr (Response NoData 403, demo_db)
   \<and> ContentDetailAPIView_put demo_ser demo_db (User 9) 5 ''edited'' = Inr (Response NoData 403, demo_db)
   \<and> ContentDetailAPIView_delete demo_db (User 9) 5 = Inr (Response NoData 403, demo_db)
   \<and> CommentDetailAPIView_put demo_ser demo_db AnonymousUser 1 ''edited'' = Inr (Response NoData 403, demo_db)
   \<and> CommentDetailAPIView_delete demo_db AnonymousUser 1 = Inr (Response NoData 403, demo_db)"
proof -
  let ?row = "\<lparr>c_id = 5, c_userinfo_id = 7, c_data = ''first'', c_create_dt = 0,
                c_is_visible = True\<rparr>"
  let ?mrow = "\<lparr>m_id = 1, m_userinfo_id = 9, m_contentinfo_id = 5, m_data = ''hello'',
                 m_create_dt = 10, m_is_visible = True\<rparr>"
  have c: "distinct (map c_id (contents demo_db)) \<and> ?row \<in> set (contents demo_db)
             \<and> user_pk (User 9) \<noteq> Some (c_userinfo_id ?row)"
    by (simp add: demo_db_def)
  have m: "distinct (map m_id (comments demo_db)) \<and> ?mrow \<in> set (comments demo_db)
             \<and> user_pk AnonymousUser \<noteq> Some (m_userinfo_id ?mrow)"
    by (simp add: demo_db_def)
  from c non_owner_forbidden[of demo_db ?row "User 9" demo_ser "[]"]
  have 1: "ContentDetailAPIView_put demo_ser demo_db (User 9) (c_id ?row) []
             = Inr (Response NoData 403, demo_db)"
    by blast
  from c non_owner_forbidden[of demo_db ?row "User 9" demo_ser "''edited''"]
  have 2: "ContentDetailAPIView_put demo_ser demo_db (User 9) (c_id ?row) ''edited''
             = Inr (Response NoData 403, demo_db)
           \<and> ContentDetailAPIView_delete demo_db (User 9) (c_id ?row)
             = Inr (Response NoData 403, demo_db)"
    by blast
  from m non_owner_forbidden[of demo_db _ AnonymousUser demo_ser "''edited''" ?mrow]
  have 3: "CommentDetailAPIView_put demo_ser demo_db AnonymousUser (m_id ?mrow) ''edited''
             = Inr (Response NoData 403, demo_db)
           \<and> CommentDetailAPIView_delete demo_db AnonymousUser (m_id ?mrow)
             = Inr (Response NoData 403, demo_db)"
    by blast
  from 1 2 3 show ?thesis by simp
qed

section \<open>Validation of the filter selectors\<close>









section \<open>Selectors naming no user\<close>








section \<open>The detail view\<close>

text \<open>
  A query set without inner joins keeps every selected row: the two outer joins of the
  annotation give each item at least one joined row.
\<close>

lemma left_outer_nonempty: "left_outer xs \<noteq> []"
  by (simp add: left_outer_def)

lemma product_Nil_iff: "List.product xs ys = [] \<longleftrightarrow> xs = [] \<or> ys = []"
  by (induction xs) auto

lemma joined_rows_plain:
  "qs_favorite_by qs = None \<Longrightarrow> qs_liked_by qs = None \<Longrightarrow> joined_rows s qs c \<noteq> []"
  by (simp add: joined_rows_def product_Nil_iff favorite_join_def liked_by_join_def
      comments_join_def left_outer_nonempty)

lemma qs_eval_plain:
  "qs_favorite_by qs = None \<Longrightarrow> qs_liked_by qs = None \<Longrightarrow> qs_eval s qs = qs_rows qs"
  by (induction "qs_rows qs" arbitrary: qs) (simp_all add: qs_eval_def favorite_join_def map_idI)

lemma map_a_row_detail_annotate:
  "qs_favorite_by qs = None \<Longrightarrow> qs_liked_by qs = None
     \<Longrightarrow> map a_row (detail_annotate s now qs) = qs_rows qs"
  by (simp add: detail_annotate_def joined_rows_plain Let_def comp_def)

lemma detail_rows:
  "map a_row (ContentDetailAPIView_get_queryset s now i)
     = filter (\<lambda>c. c_id c = i \<and> c_is_visible c) (contents s)"
  by (simp add: ContentDetailAPIView_get_queryset_def Let_def qs_eval_plain
      map_a_row_detail_annotate qs_filter_def ContentInfo_objects_def)

lemma filter_pk_distinct:
  "distinct (map pk tbl) \<Longrightarrow> row \<in> set tbl \<Longrightarrow>
     filter (\<lambda>r. pk r = pk row \<and> P r) tbl = (if P row then [row] else [])"
proof (induction tbl)
  case Nil
  then show ?case by simp
next
  case (Cons x xs)
  show ?case
  proof (cases "x = row")
    case True
    with Cons.prems have "pk row \<notin> pk ` set xs" by simp
    then have "\<forall>r\<in>set xs. pk r \<noteq> pk row" by (metis image_eqI)
    then have "filter (\<lambda>r. pk r = pk row \<and> P r) xs = []" by (simp add: filter_empty_conv)
    with True show ?thesis by simp
  next
    case False
    with Cons.prems have mem: "row \<in> set xs" by simp
    then have "pk row \<in> set (map pk xs)" by simp
    with Cons.prems have "pk x \<noteq> pk row" by auto
    with Cons mem show ?thesis by simp
  qed
qed

text \<open>
  Claim C5. The detail query is a total function into lists: it raises no error. Its
  result is empty exactly when no stored item has the id and is visible; every row it
  returns is a stored, visible item with that id; and with unique primary keys the
  result for a stored visible item is that one item, annotated.
\<close>

theorem detail_empty_or_item:
  "(ContentDetailAPIView_get_queryset s now i = []
      \<longleftrightarrow> \<not> (\<exists>c\<in>set (contents s). c_id c = i \<and> c_is_visible c))
   \<and> (\<forall>r\<in>set (ContentDetailAPIView_get_queryset s now i).
         a_row r \<in> set (contents s) \<and> c_id (a_row r) = i \<and> c_is_visible (a_row r))
   \<and> (distinct (map c_id (contents s)) \<and> c \<in> set (contents s) \<and> c_is_visible c \<longrightarrow>
         map a_row (ContentDetailAPIView_get_queryset s now (c_id c)) = [c])"
proof -
  let ?res = "ContentDetailAPIView_get_queryset s now i"
  have rows: "map a_row ?res = filter (\<lambda>c. c_id c = i \<and> c_is_visible c) (contents s)"
    by (rule detail_rows)
  have "?res = [] \<longleftrightarrow> map a_row ?res = []" by simp
  also have "\<dots> \<longleftrightarrow> \<not> (\<exists>c\<in>set (contents s). c_id c = i \<and> c_is_visible c)"
    unfolding rows by (auto simp: filter_empty_conv)
  finally have 1: "?res = [] \<longleftrightarrow> \<not> (\<exists>c\<in>set (contents s). c_id c = i \<and> c_is_visible c)" .
  have "\<forall>c\<in>set (map a_row ?res). c \<in> set (contents s) \<and> c_id c = i \<and> c_is_visible c"
    unfolding rows by simp
  then have 2: "\<forall>r\<in>set ?res. a_row r \<in> set (contents s) \<and> c_id (a_row r) = i
                  \<and> c_is_visible (a_row r)"
    by simp
  have 3: "map a_row (ContentDetailAPIView_get_queryset s now (c_id c)) = [c]"
    if "distinct (map c_id (contents s))" "c \<in> set (contents s)" "c_is_visible c"
    using that filter_pk_distinct[of c_id "contents s" c c_is_visible]
    by (simp add: detail_rows)
  from 1 2 3 show ?thesis by blast
qed

text \<open>
  In the small database item 8 is soft-deleted, no item has id 99, and item 5 is visible.
\<close>

theorem detail_empty_or_item_witness:
  "ContentDetailAPIView_get_queryset demo_db 172800000000 8 = []
   \<and> ContentDetailAPIView_get_queryset demo_db 172800000000 99 = []
   \<and> map a_row (ContentDetailAPIView_get_queryset demo_db 172800000000 5)
       = [\<lparr>c_id = 5, c_userinfo_id = 7, c_data = ''first'', c_create_dt = 0,
           c_is_visible = True\<rparr>]"
proof -
  let ?c = "\<lparr>c_id = 5, c_userinfo_id = 7, c_data = ''first'', c_create_dt = 0,
              c_is_visible = True\<rparr>"
  have hidden: "\<not> (\<exists>c\<in>set (contents demo_db). c_id c = 8 \<and> c_is_visible c)"
    and absent: "\<not> (\<exists>c\<in>set (contents demo_db). c_id c = 99 \<and> c_is_visible c)"
    and stored: "distinct (map c_id (contents demo_db)) \<and> ?c \<in> set (contents demo_db)
                   \<and> c_is_visible ?c"
    by (simp_all add: demo_db_def)
  from hidden detail_empty_or_item[of demo_db 172800000000 8]
  have 1: "ContentDetailAPIView_get_queryset demo_db 172800000000 8 = []" by blast
  from absent detail_empty_or_item[of demo_db 172800000000 99]
  have 2: "ContentDetailAPIView_get_queryset demo_db 172800000000 99 = []" by blast
  from stored detail_empty_or_item[of demo_db 172800000000 5 ?c]
  have "map a_row (ContentDetailAPIView_get_queryset demo_db 172800000000 (c_id ?c)) = [?c]"
    by blast
  with 1 2 show ?thesis by simp
qed

section \<open>Annotation and ordering of the list\<close>






lemma content_list_rows:
  "ContentListAPIView_get_queryset s now q = Inr rows \<Longrightarrow>
     \<exists>qs. content_list_filtering s q = Inr qs
        \<and> rows = (if q_order_by q = Some ''new''
                   then order_by_create_dt_desc (list_annotate s now qs)
                   else order_by_article_point_desc (list_annotate s now qs))"
  by (auto simp: ContentListAPIView_get_queryset_def split: sum.splits)

lemma set_order_by:
  "set (order_by_create_dt_desc xs) = set xs" "set (order_by_article_point_desc xs) = set xs"
  "length (order_by_create_dt_desc xs) = length xs"
  "length (order_by_article_point_desc xs) = length xs"
  by (simp_all add: order_by_create_dt_desc_def order_by_article_point_desc_def)

lemma content_list_set:
  "ContentListAPIView_get_queryset s now q = Inr rows \<Longrightarrow>
     \<exists>qs. content_list_filtering s q = Inr qs \<and> set rows = set (list_annotate s now qs)
        \<and> length rows = length (list_annotate s now qs)"
  by (auto dest!: content_list_rows simp: set_order_by split: if_splits)

lemma sorted_create_dt_desc:
  "sorted_wrt (\<lambda>a b. c_create_dt (a_row b) \<le> c_create_dt (a_row a)) (order_by_create_dt_desc xs)"
proof -
  have "sorted (map (\<lambda>r. - c_create_dt (a_row r)) (order_by_create_dt_desc xs))"
    unfolding order_by_create_dt_desc_def by (rule sorted_sort_key)
  then show ?thesis by (simp add: sorted_map)
qed

lemma sorted_article_point_desc:
  "sorted_wrt (\<lambda>a b. article_point b < article_point a
                 \<or> (article_point b = article_point a
                     \<and> c_create_dt (a_row b) \<le> c_create_dt (a_row a)))
     (order_by_article_point_desc xs)"
proof -
  have "sorted (map (\<lambda>r. (- article_point r, - c_create_dt (a_row r)))
                  (order_by_article_point_desc xs))"
    unfolding order_by_article_point_desc_def by (rule sorted_sort_key)
  then have "sorted_wrt (\<lambda>a b. (- article_point a, - c_create_dt (a_row a))
                             \<le> (- article_point b, - c_create_dt (a_row b)))
               (order_by_article_point_desc xs)"
    by (simp add: sorted_map)
  then show ?thesis
    by (rule sorted_wrt_mono_rel[rotated]) (auto simp: less_eq_prod_def)
qed


text \<open>
  The list and detail views on the small database, two days and 999 microseconds after
  the first item was created.
\<close>

lemma demo_list_default:
  "ContentListAPIView_get_queryset demo_db 172800000999
     \<lparr>q_order_by = None, q_favorite_by = None, q_liked_by = None, q_user = None\<rparr>
   = Inr [\<lparr>a_row = \<lparr>c_id = 5, c_userinfo_id = 7, c_data = ''first'', c_create_dt = 0,
                     c_is_visible = True\<rparr>,
           comment_count = 3, like_count = 3, duration_in_microseconds = 172800000000,
           duration = 2, article_point = 2\<rparr>,
          \<lparr>a_row = \<lparr>c_id = 6, c_userinfo_id = 9, c_data = ''second'',
                     c_create_dt = 86400000000, c_is_visible = True\<rparr>,
           comment_count = 1, like_count = 0, duration_in_microseconds = 86400000000,
           duration = 1, article_point = - 2\<rparr>]"
  by (simp add: ContentListAPIView_get_queryset_def content_list_filtering_def
      demo_db_def qs_filter_def ContentInfo_objects_def list_annotate_def joined_rows_def
      favorite_join_def liked_by_join_def comments_join_def left_outer_def
      replace_microsecond_0_def order_by_article_point_desc_def Let_def less_eq_prod_def)

lemma demo_list_new:
  "ContentListAPIView_get_queryset demo_db 172800000999
     \<lparr>q_order_by = Some ''new'', q_favorite_by = None, q_liked_by = None, q_user = None\<rparr>
   = Inr [\<lparr>a_row = \<lparr>c_id = 6, c_userinfo_id = 9, c_data = ''second'',
                     c_create_dt = 86400000000, c_is_visible = True\<rparr>,
           comment_count = 1, like_count = 0, duration_in_microseconds = 86400000000,
           duration = 1, article_point = - 2\<rparr>,
          \<lparr>a_row = \<lparr>c_id = 5, c_userinfo_id = 7, c_data = ''first'', c_create_dt = 0,
                     c_is_visible = True\<rparr>,
           comment_count = 3, like_count = 3, duration_in_microseconds = 172800000000,
           duration = 2, article_point = 2\<rparr>]"
  by (simp add: ContentListAPIView_get_queryset_def content_list_filtering_def
      demo_db_def qs_filter_def ContentInfo_objects_def list_annotate_def joined_rows_def
      favorite_join_def liked_by_join_def comments_join_def left_outer_def
      replace_microsecond_0_def order_by_create_dt_desc_def Let_def)

lemma demo_detail_6:
  "ContentDetailAPIView_get_queryset demo_db 172800000999 6
   = [\<lparr>a_row = \<lparr>c_id = 6, c_userinfo_id = 9, c_data = ''second'',
                 c_create_dt = 86400000000, c_is_visible = True\<rparr>,
       comment_count = 1, like_count = 0, duration_in_microseconds = 86400000000,
       duration = 1, article_point = - 2\<rparr>]"
  by (simp add: ContentDetailAPIView_get_queryset_def qs_eval_def
      demo_db_def qs_filter_def ContentInfo_objects_def detail_annotate_def joined_rows_def
      favorite_join_def liked_by_join_def comments_join_def left_outer_def
      replace_microsecond_0_def Let_def)



text \<open>
  Claim C3. When the list view answers, its rows are the annotated rows of the selected
  query set in another order: with \<^verbatim>\<open>order-by=new\<close> sorted by creation time descending
  alone, and with any other or no value of \<^verbatim>\<open>order-by\<close> sorted by \<open>article_point\<close>
  descending, rows of equal score by creation time descending.
\<close>

theorem list_ordering:
  "ContentListAPIView_get_queryset s now q = Inr rows \<longrightarrow>
     (q_order_by q = Some ''new'' \<longrightarrow>
        sorted_wrt (\<lambda>a b. c_create_dt (a_row b) \<le> c_create_dt (a_row a)) rows)
   \<and> (q_order_by q \<noteq> Some ''new'' \<longrightarrow>
        sorted_wrt (\<lambda>a b. article_point b < article_point a
                      \<or> (article_point b = article_point a
                          \<and> c_create_dt (a_row b) \<le> c_create_dt (a_row a))) rows)
   \<and> (\<exists>qs. content_list_filtering s q = Inr qs
          \<and> set rows = set (list_annotate s now qs)
          \<and> length rows = length (list_annotate s now qs))"
proof
  assume run: "ContentListAPIView_get_queryset s now q = Inr rows"
  from content_list_rows[OF run] obtain qs where
    rows: "rows = (if q_order_by q = Some ''new''
                   then order_by_create_dt_desc (list_annotate s now qs)
                   else order_by_article_point_desc (list_annotate s now qs))"
    by blast
  have 1: "q_order_by q = Some ''new'' \<longrightarrow>
        sorted_wrt (\<lambda>a b. c_create_dt (a_row b) \<le> c_create_dt (a_row a)) rows"
    using rows sorted_create_dt_desc[of "list_annotate s now qs"] by simp
  have 2: "q_order_by q \<noteq> Some ''new'' \<longrightarrow>
        sorted_wrt (\<lambda>a b. article_point b < article_point a
                      \<or> (article_point b = article_point a
                          \<and> c_create_dt (a_row b) \<le> c_create_dt (a_row a))) rows"
    using rows sorted_article_point_desc[of "list_annotate s now qs"] by simp
  from 1 2 content_list_set[OF run]
  show "(q_order_by q = Some ''new'' \<longrightarrow>
        sorted_wrt (\<lambda>a b. c_create_dt (a_row b) \<le> c_create_dt (a_row a)) rows)
   \<and> (q_order_by q \<noteq> Some ''new'' \<longrightarrow>
        sorted_wrt (\<lambda>a b. article_point b < article_point a
                      \<or> (article_point b = article_point a
                          \<and> c_create_dt (a_row b) \<le> c_create_dt (a_row a))) rows)
   \<and> (\<exists>qs. content_list_filtering s q = Inr qs
          \<and> set rows = set (list_annotate s now qs)
          \<and> length rows = length (list_annotate s now qs))"
    by blast
qed


text \<open>
  In the small database the older item 5 has the higher score: it comes first in the
  default order and last with \<^verbatim>\<open>order-by=new\<close>.
\<close>

theorem list_ordering_witness:
  "ContentListAPIView_get_queryset demo_db 172800000999
     \<lparr>q_order_by = Some ''new'', q_favorite_by = None, q_liked_by = None, q_user = None\<rparr>
   = Inr [\<lparr>a_row = \<lparr>c_id = 6, c_userinfo_id = 9, c_data = ''second'',
                     c_create_dt = 86400000000, c_is_visible = True\<rparr>,
           comment_count = 1, like_count = 0, duration_in_microseconds = 86400000000,
           duration = 1, article_point = - 2\<rparr>,
          \<lparr>a_row = \<lparr>c_id = 5, c_userinfo_id = 7, c_data = ''first'', c_create_dt = 0,
                     c_is_visible = True\<rparr>,
           comment_count = 3, like_count = 3, duration_in_microseconds = 172800000000,
           duration = 2, article_point = 2\<rparr>]
   \<and> sorted_wrt (\<lambda>a b. c_create_dt (a_row b) \<le> c_create_dt (a_row a))
       [\<lparr>a_row = \<lparr>c_id = 6, c_userinfo_id = 9, c_data = ''second'',
                     c_create_dt = 86400000000, c_is_visible = True\<rparr>,
           comment_count = 1, like_count = 0, duration_in_microseconds = 86400000000,
           duration = 1, article_point = - 2\<rparr>,
        \<lparr>a_row = \<lparr>c_id = 5, c_userinfo_id = 7, c_data = ''first'', c_create_dt = 0,
                     c_is_visible = True\<rparr>,
           comment_count = 3, like_count = 3, duration_in_microseconds = 172800000000,
           duration = 2, article_point = 2\<rparr>]
   \<and> ContentListAPIView_get_queryset demo_db 172800000999
     \<lparr>q_order_by = None, q_favorite_by = None, q_liked_by = None, q_user = None\<rparr>
   = Inr [\<lparr>a_row = \<lparr>c_id = 5, c_userinfo_id = 7, c_data = ''first'', c_create_dt = 0,
                     c_is_visible = True\<rparr>,
           comment_count = 3, like_count = 3, duration_in_microseconds = 172800000000,
           duration = 2, article_point = 2\<rparr>,
          \<lparr>a_row = \<lparr>c_id = 6, c_userinfo_id = 9, c_data = ''second'',
                     c_create_dt = 86400000000, c_is_visible = True\<rparr>,
           comment_count = 1, like_count = 0, duration_in_microseconds = 86400000000,
           duration = 1, article_point = - 2\<rparr>]
   \<and> sorted_wrt (\<lambda>a b. article_point b < article_point a
                      \<or> (article_point b = article_point a
                          \<and> c_create_dt (a_row b) \<le> c_create_dt (a_row a)))
       [\<lparr>a_row = \<lparr>c_id = 5, c_userinfo_id = 7, c_data = ''first'', c_create_dt = 0,
                     c_is_visible = True\<rparr>,
           comment_count = 3, like_count = 3, duration_in_microseconds = 172800000000,
           duration = 2, article_point = 2\<rparr>,
        \<lparr>a_row = \<lparr>c_id = 6, c_userinfo_id = 9, c_data = ''second'',
                     c_create_dt = 86400000000, c_is_visible = True\<rparr>,
           comment_count = 1, like_count = 0, duration_in_microseconds = 86400000000,
           duration = 1, article_point = - 2\<rparr>]"
proof -
  let ?new = "\<lparr>q_order_by = Some ''new'', q_favorite_by = None, q_liked_by = None,
                q_user = None\<rparr>"
  let ?q = "\<lparr>q_order_by = None, q_favorite_by = None, q_liked_by = None, q_user = None\<rparr>"
  let ?r5 = "\<lparr>a_row = \<lparr>c_id = 5, c_userinfo_id = 7, c_data = ''first'', c_create_dt = 0,
                     c_is_visible = True\<rparr>,
           comment_count = 3, like_count = 3, duration_in_microseconds = 172800000000,
           duration = 2, article_point = 2\<rparr>"
  let ?r6 = "\<lparr>a_row = \<lparr>c_id = 6, c_userinfo_id = 9, c_data = ''second'',
                     c_create_dt = 86400000000, c_is_visible = True\<rparr>,
           comment_count = 1, like_count = 0, duration_in_microseconds = 86400000000,
           duration = 1, article_point = - 2\<rparr>"
  have a: "ContentListAPIView_get_queryset demo_db 172800000999 ?new = Inr [?r6, ?r5]"
    by (rule demo_list_new)
  have b: "ContentListAPIView_get_queryset demo_db 172800000999 ?q = Inr [?r5, ?r6]"
    by (rule demo_list_default)
  have onew: "q_order_by ?new = Some ''new''" and odef: "q_order_by ?q \<noteq> Some ''new''"
    by simp_all
  from a onew list_ordering[of demo_db 172800000999 ?new "[?r6, ?r5]"]
  have 1: "sorted_wrt (\<lambda>a b. c_create_dt (a_row b) \<le> c_create_dt (a_row a)) [?r6, ?r5]"
    by blast
  from b odef list_ordering[of demo_db 172800000999 ?q "[?r5, ?r6]"]
  have 2: "sorted_wrt (\<lambda>a b. article_point b < article_point a
                      \<or> (article_point b = article_point a
                          \<and> c_create_dt (a_row b) \<le> c_create_dt (a_row a))) [?r5, ?r6]"
    by blast
  from a b 1 2 show ?thesis by blast
qed

text \<open>
  Claim C1 does not hold of the code. The only comment of item 6 is soft-deleted, so the
  item has no visible comment, yet its \<open>comment_count\<close> is 1 in the detail view and in
  the list: the join that is counted has no condition on the comment's visibility.
  Item 5 is liked by one user and has three comments; the two joins multiply and its
  \<open>like_count\<close> is 3.
\<close>

theorem counts_with_soft_deleted_comment:
  "ContentDetailAPIView_get_queryset demo_db 172800000999 6
   = [\<lparr>a_row = \<lparr>c_id = 6, c_userinfo_id = 9, c_data = ''second'',
                 c_create_dt = 86400000000, c_is_visible = True\<rparr>,
       comment_count = 1, like_count = 0, duration_in_microseconds = 86400000000,
       duration = 1, article_point = - 2\<rparr>]
   \<and> filter (\<lambda>m. m_contentinfo_id m = 6 \<and> m_is_visible m) (comments demo_db) = []
   \<and> ContentListAPIView_get_queryset demo_db 172800000999
        \<lparr>q_order_by = None, q_favorite_by = None, q_liked_by = None, q_user = None\<rparr>
     = Inr [\<lparr>a_row = \<lparr>c_id = 5, c_userinfo_id = 7, c_data = ''first'', c_create_dt = 0,
                     c_is_visible = True\<rparr>,
           comment_count = 3, like_count = 3, duration_in_microseconds = 172800000000,
           duration = 2, article_point = 2\<rparr>,
          \<lparr>a_row = \<lparr>c_id = 6, c_userinfo_id = 9, c_data = ''second'',
                     c_create_dt = 86400000000, c_is_visible = True\<rparr>,
           comment_count = 1, like_count = 0, duration_in_microseconds = 86400000000,
           duration = 1, article_point = - 2\<rparr>]
   \<and> filter (\<lambda>p. snd p = 5) (liked_contents demo_db) = [(7, 5)]"
  using demo_detail_6 demo_list_default by (simp add: demo_db_def)

end
